theory Spec2Isabelle
  imports Main
begin

section \<open>Python strings\<close>

text \<open>
  A Python \<^verbatim>\<open>str\<close> is a sequence of Unicode code points and \<^verbatim>\<open>len\<close> counts code
  points, so a string is modelled as the list of its code points. The literals of
  \<^verbatim>\<open>src/bot.py\<close> that are not ASCII are written out code point by code point, as the
  file's UTF-8 bytes decode.
\<close>

type_synonym pystr = "nat list"

definition ascii :: "string \<Rightarrow> pystr" where
  "ascii s = map of_char s"

text \<open>The code points for which \<^verbatim>\<open>str.isspace\<close> holds; \<^verbatim>\<open>str.strip()\<close> removes them.\<close>

definition is_space :: "nat \<Rightarrow> bool" where
  "is_space c \<longleftrightarrow>
     (9 \<le> c \<and> c \<le> 13) \<or> (28 \<le> c \<and> c \<le> 32) \<or> c = 133 \<or> c = 160 \<or> c = 5760 \<or>
     (8192 \<le> c \<and> c \<le> 8202) \<or> c = 8232 \<or> c = 8233 \<or> c = 8239 \<or> c = 8287 \<or>
     c = 12288"

definition lstrip_by :: "(nat \<Rightarrow> bool) \<Rightarrow> pystr \<Rightarrow> pystr" where
  "lstrip_by P s = dropWhile P s"

definition rstrip_by :: "(nat \<Rightarrow> bool) \<Rightarrow> pystr \<Rightarrow> pystr" where
  "rstrip_by P s = rev (dropWhile P (rev s))"

definition strip_by :: "(nat \<Rightarrow> bool) \<Rightarrow> pystr \<Rightarrow> pystr" where
  "strip_by P s = rstrip_by P (lstrip_by P s)"

text \<open>\<^verbatim>\<open>s.strip()\<close> and \<^verbatim>\<open>s.strip(chars)\<close>.\<close>

definition strip :: "pystr \<Rightarrow> pystr" where
  "strip s = strip_by is_space s"

definition strip_chars :: "pystr \<Rightarrow> pystr \<Rightarrow> pystr" where
  "strip_chars chars s = strip_by (\<lambda>c. c \<in> set chars) s"

text \<open>\<^verbatim>\<open>s.startswith(p)\<close>.\<close>

definition startswith :: "pystr \<Rightarrow> pystr \<Rightarrow> bool" where
  "startswith s p \<longleftrightarrow> take (length p) s = p"

text \<open>\<^verbatim>\<open>sep.join(xs)\<close>.\<close>

fun join :: "pystr \<Rightarrow> pystr list \<Rightarrow> pystr" where
  "join sep [] = []"
| "join sep [x] = x"
| "join sep (x # y # ys) = x @ sep @ join sep (y # ys)"

section \<open>The tweet formatter\<close>

text \<open>
  The two markers of \<^verbatim>\<open>build_tweet_text\<close>, as the source file spells them: the news
  marker is the code points U+00F0, U+0178, U+201C, U+00B0 and a space, the bullet marker
  U+00E2, U+2013, U+00B8 and a space.
\<close>

definition news_marker :: pystr where
  "news_marker = [240, 376, 8220, 176, 32]"

definition bullet_marker :: pystr where
  "bullet_marker = [226, 8211, 184, 32]"

definition nl :: pystr where
  "nl = [10]"

text \<open>
  \<^verbatim>\<open>
  def build_tweet_text(self, headline, key_points):
      key_points = key_points[:3]
      headline = headline.strip()
      full_format = M + headline + "\n\n" + "\n".join(B + p for p in key_points) + "\n\n"
      abbreviated = M + headline + "\n\n" + (B + key_points[0] if key_points else "") + "\n\n"
      minimal = M + headline + "\n\n"
      if len(full_format) <= 260:
          return full_format.strip(), "full"
      if len(abbreviated) <= 280:
          return abbreviated.strip(), "abbreviated"
      return minimal.strip(), "minimal"
  \<close>
  with \<^verbatim>\<open>M\<close> the news marker and \<^verbatim>\<open>B\<close> the bullet marker.
\<close>

definition full_format :: "pystr \<Rightarrow> pystr list \<Rightarrow> pystr" where
  "full_format headline key_points =
     news_marker @ headline @ nl @ nl @ join nl (map (\<lambda>p. bullet_marker @ p) key_points) @ nl @ nl"

definition abbreviated :: "pystr \<Rightarrow> pystr list \<Rightarrow> pystr" where
  "abbreviated headline key_points =
     news_marker @ headline @ nl @ nl @
       (case key_points of [] \<Rightarrow> [] | p # _ \<Rightarrow> bullet_marker @ p) @ nl @ nl"

definition minimal :: "pystr \<Rightarrow> pystr" where
  "minimal headline = news_marker @ headline @ nl @ nl"

definition build_tweet_text :: "pystr \<Rightarrow> pystr list \<Rightarrow> pystr \<times> pystr" where
  "build_tweet_text headline0 key_points0 =
     (let key_points = take 3 key_points0;
          headline = strip headline0
      in if length (full_format headline key_points) \<le> 260
           then (strip (full_format headline key_points), ascii ''full'')
         else if length (abbreviated headline key_points) \<le> 280
           then (strip (abbreviated headline key_points), ascii ''abbreviated'')
         else (strip (minimal headline), ascii ''minimal''))"

section \<open>The summarizer\<close>

record news_item =
  title :: pystr
  description :: pystr
  url :: pystr
  published_at :: pystr
  source :: pystr

text \<open>
  The exceptions the model tells apart. All of them are subclasses of Python's
  \<^verbatim>\<open>Exception\<close>: \<^verbatim>\<open>except Exception\<close> catches each, \<^verbatim>\<open>except OpenAIError\<close> and
  \<^verbatim>\<open>except Forbidden\<close> only their own.
\<close>

datatype exn = OpenAIError | Forbidden | IndexError | OtherException

text \<open>\<^verbatim>\<open>str.splitlines()\<close>: the line boundaries of Python, \<^verbatim>\<open>\r\n\<close> counting as one.\<close>

definition is_linebreak :: "nat \<Rightarrow> bool" where
  "is_linebreak c \<longleftrightarrow>
     c = 10 \<or> c = 11 \<or> c = 12 \<or> c = 13 \<or> c = 28 \<or> c = 29 \<or> c = 30 \<or> c = 133 \<or>
     c = 8232 \<or> c = 8233"

fun splitlines_from :: "pystr \<Rightarrow> pystr \<Rightarrow> pystr list" where
  "splitlines_from cur [] = (if cur = [] then [] else [rev cur])"
| "splitlines_from cur [c] = (if is_linebreak c then [rev cur] else [rev (c # cur)])"
| "splitlines_from cur (c # d # cs) =
     (if c = 13 \<and> d = 10 then rev cur # splitlines_from [] cs
      else if is_linebreak c then rev cur # splitlines_from [] (d # cs)
      else splitlines_from (c # cur) (d # cs))"

definition splitlines :: "pystr \<Rightarrow> pystr list" where
  "splitlines s = splitlines_from [] s"

text \<open>
  The markers of the parser: \<^verbatim>\<open>"HEADLINE:"\<close>, and the bullet as the source file
  spells it, the code points U+00E2, U+20AC, U+00A2.
\<close>

definition headline_marker :: pystr where
  "headline_marker = ascii ''HEADLINE:''"

definition point_marker :: pystr where
  "point_marker = [226, 8364, 162]"

text \<open>
  One round of the parsing loop of \<^verbatim>\<open>summarize_news\<close>:
  \<^verbatim>\<open>
  if line.startswith("HEADLINE:"):
      headline = line.split("HEADLINE:", 1)[1].strip()
  elif line.strip().startswith(BULLET):
      key_points.append(line.strip(BULLET + " "))
  \<close>
  The line starts with the marker, so the marker's first occurrence is at index 0 and
  \<^verbatim>\<open>line.split("HEADLINE:", 1)[1]\<close> is the line without its first nine characters.
\<close>

definition parse_line :: "pystr \<times> pystr list \<Rightarrow> pystr \<Rightarrow> pystr \<times> pystr list" where
  "parse_line acc line =
     (if startswith line headline_marker
        then (strip (drop (length headline_marker) line), snd acc)
      else if startswith (strip line) point_marker
        then (fst acc, snd acc @ [strip_chars (point_marker @ [32]) line])
      else acc)"

definition parse_summary :: "pystr \<Rightarrow> pystr \<times> pystr list" where
  "parse_summary content = foldl parse_line ([], []) (splitlines content)"

text \<open>
  \<^verbatim>\<open>summarize_news\<close>. The chat completion is an outside call: its outcome is the
  parameter \<open>completion\<close>, \<open>Inl e\<close> when the call (or reading its first choice) raises
  \<open>e\<close>, \<open>Inr c\<close> when it returns the message content \<open>c\<close>, which may be \<^verbatim>\<open>None\<close>
  (\<^verbatim>\<open>content or ""\<close>). With no news item the call is not made.
  \<^verbatim>\<open>
  if not news_items:
      return "Latest news update", ["Stay informed"]
  try:
      response = ...create(...)
      content = response.choices[0].message.content or ""
  except OpenAIError as exc:
      headline = news_items[0]["title"]
      points = [item["title"] for item in news_items[1:4]] or ["Stay informed"]
      return headline, points
  headline = ""; key_points = []
  for line in content.splitlines(): ...
  if not headline:
      headline = news_items[0]["title"]
  if not key_points:
      key_points = [item["title"] for item in news_items[:3]]
  key_points = key_points[:3]
  return headline, key_points
  \<close>
\<close>

definition summarize_news ::
  "(exn + pystr option) \<Rightarrow> news_item list \<Rightarrow> exn + (pystr \<times> pystr list)" where
  "summarize_news completion news_items =
     (case news_items of
        [] \<Rightarrow> Inr (ascii ''Latest news update'', [ascii ''Stay informed''])
      | first # _ \<Rightarrow>
          (case completion of
             Inl e \<Rightarrow>
               (if e = OpenAIError
                then (let points = map title (take 3 (drop 1 news_items))
                      in Inr (title first,
                              if points = [] then [ascii ''Stay informed''] else points))
                else Inl e)
           | Inr c \<Rightarrow>
               (let content = (case c of None \<Rightarrow> [] | Some s \<Rightarrow> s);
                    parsed = parse_summary content;
                    headline = (if fst parsed = [] then title first else fst parsed);
                    key_points = (if snd parsed = [] then map title (take 3 news_items)
                                  else snd parsed)
                in Inr (headline, take 3 key_points))))"

section \<open>The world: local files and the calls made\<close>

text \<open>
  The effects of the bot are on the local file system (temporary media files) and on the
  outside services it calls. The file system is a map from a path to the size of the file
  there; the calls are logged in order, so that a claim that a step is not performed is a
  statement on the log. The outside services do not touch the local files.
\<close>

type_synonym path = pystr

datatype call =
    Call_fetch_crypto_news
  | Call_fetch_world_news
  | Call_summarize_news
  | Call_build_tweet_text
  | Call_generate_ai_image
  | Call_generate_screenshot
  | Call_post_tweet
  | Api_media_upload path
  | Api_upload_to_uploadme path
  | Api_create_tweet pystr bool

record world =
  files :: "path \<rightharpoonup> nat"
  calls :: "call list"

definition log :: "call \<Rightarrow> world \<Rightarrow> world" where
  "log c w = w\<lparr>calls := calls w @ [c]\<rparr>"

text \<open>\<^verbatim>\<open>Path(p).exists()\<close>, \<^verbatim>\<open>Path(p).unlink(missing_ok=True)\<close> and writing a file.\<close>

definition path_exists :: "world \<Rightarrow> path \<Rightarrow> bool" where
  "path_exists w p \<longleftrightarrow> files w p \<noteq> None"

definition unlink :: "path \<Rightarrow> world \<Rightarrow> world" where
  "unlink p w = w\<lparr>files := (files w)(p := None)\<rparr>"

definition write_file :: "path \<Rightarrow> nat \<Rightarrow> world \<Rightarrow> world" where
  "write_file p n w = w\<lparr>files := (files w)(p \<mapsto> n)\<rparr>"

text \<open>The texts handed to the platform's \<^verbatim>\<open>create_tweet\<close>, in order.\<close>

fun posted_texts :: "call list \<Rightarrow> pystr list" where
  "posted_texts [] = []"
| "posted_texts (Api_create_tweet t m # cs) = t # posted_texts cs"
| "posted_texts (c # cs) = posted_texts cs"


section \<open>The environment\<close>

text \<open>
  The headless browser of \<^verbatim>\<open>_capture_screenshot\<close>, one field for each thing the code
  asks of it: whether \<^verbatim>\<open>pyppeteer\<close> was imported (\<^verbatim>\<open>launch is not None\<close>), the
  Chromium executable found (\<^verbatim>\<open>CHROMIUM_PATH\<close> or \<^verbatim>\<open>shutil.which\<close>), and for each call
  whether it raises. A screenshot call raises, or returns having written a file of the
  given size (\<open>None\<close>: having written none). \<open>screenshot_path\<close> is the temporary
  file name the code derives from the clock.
\<close>

record browser =
  launch_available :: bool
  executable_path :: "pystr option"
  launch_raises :: "exn option"
  page_setup_raises :: "exn option"
  goto_raises :: "exn option"
  selector_visible :: "pystr \<Rightarrow> bool"
  query_selector :: "pystr \<Rightarrow> exn + bool"
  bounding_box :: "pystr \<Rightarrow> exn + (int \<times> int) option"
  element_screenshot :: "exn + nat option"
  page_screenshot :: "exn + nat option"
  close_raises :: "exn option"
  screenshot_path :: path

text \<open>
  The other collaborators: Python's case mappings \<^verbatim>\<open>str.upper\<close> and \<^verbatim>\<open>str.lower\<close>,
  the two news suppliers, the chat completion, the overlay renderer
  (\<^verbatim>\<open>generate_ai_image\<close>: it raises, or returns the path and size of the image saved,
  or \<open>None\<close> when every font variation failed), the chart download (it raises, or answers with a status code and a
  payload length), the image host and the platform. \<open>create_tweet_result text m\<close> is
  what \<^verbatim>\<open>create_tweet\<close> does with this text, \<open>m\<close> telling whether media ids are
  attached: it raises, or returns the new tweet's id.
\<close>

record env =
  str_upper :: "pystr \<Rightarrow> pystr"
  str_lower :: "pystr \<Rightarrow> pystr"
  crypto_news :: "news_item list"
  world_news :: "news_item list"
  completion :: "exn + pystr option"
  overlay_image :: "exn + (path \<times> nat) option"
  chart_response :: "exn + (nat \<times> nat)"
  chart_path :: "pystr \<Rightarrow> path"
  the_browser :: browser
  uploadme_api_key :: "pystr option"
  uploadme_response :: "exn + pystr option"
  media_upload_result :: "exn + nat"
  create_tweet_result :: "pystr \<Rightarrow> bool \<Rightarrow> exn + pystr option"

section \<open>The media acquirer\<close>

text \<open>
  \<^verbatim>\<open>generate_ai_image\<close>: the drawing is not modelled, its outcome is the environment's.
  The temporary directory is made (\<^verbatim>\<open>tempfile.gettempdir()\<close>, \<^verbatim>\<open>temp_dir.mkdir(...)\<close>)
  before the loop over the fonts, outside every \<^verbatim>\<open>try\<close>: an exception there leaves the
  function, with nothing written. Inside the loop each font's exception is caught, and
  \<^verbatim>\<open>None\<close> is returned when no font gave an image.
\<close>

definition generate_ai_image :: "env \<Rightarrow> world \<Rightarrow> (exn + path option) \<times> world" where
  "generate_ai_image e w =
     (case overlay_image e of
        Inl x \<Rightarrow> (Inl x, w)
      | Inr None \<Rightarrow> (Inr None, w)
      | Inr (Some (p, n)) \<Rightarrow> (Inr (Some p), write_file p n w))"

text \<open>
  \<^verbatim>\<open>_download_chart_image\<close>: the whole body is in a \<^verbatim>\<open>try\<close> whose
  \<^verbatim>\<open>except Exception\<close> returns \<^verbatim>\<open>None\<close>; the payload is kept when the status is 200
  and it is longer than 1000 bytes.
\<close>

definition download_chart_image :: "env \<Rightarrow> pystr \<Rightarrow> world \<Rightarrow> path option \<times> world" where
  "download_chart_image e symbol w =
     (case chart_response e of
        Inl _ \<Rightarrow> (None, w)
      | Inr (status, n) \<Rightarrow>
          if status = 200 \<and> n > 1000
          then (Some (chart_path e symbol), write_file (chart_path e symbol) n w)
          else (None, w))"

text \<open>\<^verbatim>\<open>s.split(",")\<close> for a separator of one character, and \<^verbatim>\<open>sub in s\<close>.\<close>

fun split_on :: "nat \<Rightarrow> pystr \<Rightarrow> pystr list" where
  "split_on sep [] = [[]]"
| "split_on sep (c # cs) =
     (if c = sep then [] # split_on sep cs
      else (case split_on sep cs of [] \<Rightarrow> [[c]] | x # xs \<Rightarrow> (c # x) # xs))"

fun contains :: "pystr \<Rightarrow> pystr \<Rightarrow> bool" where
  "contains sub [] \<longleftrightarrow> sub = []"
| "contains sub (c # cs) \<longleftrightarrow> startswith (c # cs) sub \<or> contains sub cs"

text \<open>
  The selector loop of \<^verbatim>\<open>_capture_screenshot\<close>: of the comma-separated alternatives,
  stripped, the first that becomes visible replaces the selector; when none does, the
  selector stays as it was given.
\<close>

definition resolve_selector :: "browser \<Rightarrow> pystr \<Rightarrow> pystr" where
  "resolve_selector b selector =
     (if selector = [] then selector
      else (case find (selector_visible b) (map strip (split_on 44 selector)) of
              Some sel \<Rightarrow> sel
            | None \<Rightarrow> selector))"

definition write_opt :: "path \<Rightarrow> nat option \<Rightarrow> world \<Rightarrow> world" where
  "write_opt p written w = (case written of None \<Rightarrow> w | Some n \<Rightarrow> write_file p n w)"

text \<open>
  The element-scoped capture, in its own \<^verbatim>\<open>try\<close>: any exception there, a missing
  element or a box without positive width and height leaves \<^verbatim>\<open>screenshot_taken\<close> false.
\<close>

definition element_capture :: "browser \<Rightarrow> pystr \<Rightarrow> world \<Rightarrow> bool \<times> world" where
  "element_capture b selector w =
     (if selector = [] then (False, w)
      else (case query_selector b selector of
              Inl _ \<Rightarrow> (False, w)
            | Inr found \<Rightarrow>
                if \<not> found then (False, w)
                else (case bounding_box b selector of
                        Inl _ \<Rightarrow> (False, w)
                      | Inr None \<Rightarrow> (False, w)
                      | Inr (Some (bw, bh)) \<Rightarrow>
                          if bw > 0 \<and> bh > 0
                          then (case element_screenshot b of
                                  Inl _ \<Rightarrow> (False, w)
                                | Inr written \<Rightarrow>
                                    (True, write_opt (screenshot_path b) written w))
                          else (False, w))))"

text \<open>
  The body of the \<^verbatim>\<open>try\<close> of \<^verbatim>\<open>_capture_screenshot\<close>, with its
  \<^verbatim>\<open>except Exception: return None\<close>: page set-up, navigation, selector, element capture,
  viewport capture when no element capture was taken, and the check that the file exists
  and has at least 1000 bytes.
\<close>

definition capture_body :: "browser \<Rightarrow> pystr \<Rightarrow> world \<Rightarrow> path option \<times> world" where
  "capture_body b selector0 w =
     (case page_setup_raises b of
        Some _ \<Rightarrow> (None, w)
      | None \<Rightarrow>
     (case goto_raises b of
        Some _ \<Rightarrow> (None, w)
      | None \<Rightarrow>
          (let selector = resolve_selector b selector0;
               taken = element_capture b selector w;
               w1 = snd taken;
               shot = (if fst taken then Inr w1
                       else (case page_screenshot b of
                               Inl x \<Rightarrow> Inl x
                             | Inr written \<Rightarrow> Inr (write_opt (screenshot_path b) written w1)))
           in case shot of
                Inl _ \<Rightarrow> (None, w1)
              | Inr w2 \<Rightarrow>
                  (case files w2 (screenshot_path b) of
                     None \<Rightarrow> (None, w2)
                   | Some file_size \<Rightarrow>
                       if file_size < 1000 then (None, w2)
                       else (Some (screenshot_path b), w2)))))"

text \<open>
  \<^verbatim>\<open>_capture_screenshot\<close>:
  \<^verbatim>\<open>
  if launch is None: return None
  executable_path = ...
  if not executable_path: return None
  browser = await launch(...)
  try: ...
  except Exception as exc: return None
  finally: await browser.close()
  \<close>
  The launch is before the \<^verbatim>\<open>try\<close>, and the \<^verbatim>\<open>finally\<close> clause's own exception
  replaces the value being returned. The viewport's width and height do not decide
  anything in the model.
\<close>

definition capture_screenshot ::
  "browser \<Rightarrow> pystr \<Rightarrow> pystr \<Rightarrow> world \<Rightarrow> (exn + path option) \<times> world" where
  "capture_screenshot b target_url selector w =
     (if \<not> launch_available b then (Inr None, w)
      else if executable_path b = None \<or> executable_path b = Some [] then (Inr None, w)
      else (case launch_raises b of
              Some x \<Rightarrow> (Inl x, w)
            | None \<Rightarrow>
                (let r = capture_body b selector w
                 in case close_raises b of
                      Some x \<Rightarrow> (Inl x, snd r)
                    | None \<Rightarrow> (Inr (fst r), snd r))))"

text \<open>Python's truth value of an optional string: \<^verbatim>\<open>None\<close> and \<^verbatim>\<open>""\<close> are false.\<close>

definition truthy :: "pystr option \<Rightarrow> bool" where
  "truthy x = (case x of None \<Rightarrow> False | Some s \<Rightarrow> s \<noteq> [])"

definition crypto_symbols :: "pystr list" where
  "crypto_symbols =
     map ascii [''BTC'', ''ETH'', ''SOL'', ''XRP'', ''ADA'', ''DOT'', ''MATIC'', ''LINK'',
                ''UNI'', ''AVAX'']"

definition coingecko_ids :: "pystr list" where
  "coingecko_ids = map ascii [''bitcoin'', ''ethereum'', ''solana'', ''ripple'', ''cardano'']"

text \<open>
  The symbol scan of \<^verbatim>\<open>generate_screenshot\<close>:
  \<^verbatim>\<open>
  symbol = DEFAULT
  for item in news_items:
      combined = f"{item['title']} {item['description']}".upper()
      for sym in KNOWN:
          if sym in combined:
              symbol = sym
              break
      if symbol != DEFAULT:
          break
  \<close>
  (with \<^verbatim>\<open>lower()\<close> for the ticker target).
\<close>

fun scan_symbol :: "(pystr \<Rightarrow> pystr) \<Rightarrow> pystr list \<Rightarrow> pystr \<Rightarrow> news_item list \<Rightarrow> pystr" where
  "scan_symbol conv known dflt [] = dflt"
| "scan_symbol conv known dflt (item # rest) =
     (let combined = conv (title item @ [32] @ description item);
          symbol = (case find (\<lambda>k. contains k combined) known of
                      Some k \<Rightarrow> k
                    | None \<Rightarrow> dflt)
      in if symbol \<noteq> dflt then symbol else scan_symbol conv known dflt rest)"

text \<open>
  \<^verbatim>\<open>generate_screenshot\<close>. For the chart target the direct download comes first; each
  target returns \<^verbatim>\<open>None\<close> when \<^verbatim>\<open>launch is None\<close>; the article target reads
  \<^verbatim>\<open>news_items[0]\<close>, which raises on an empty list. The coroutine is then run to its end
  (\<^verbatim>\<open>asyncio.run\<close>, or \<^verbatim>\<open>run_coroutine_threadsafe(...).result()\<close>), which hands on its
  result or its exception.
\<close>

definition generate_screenshot ::
  "env \<Rightarrow> news_item list \<Rightarrow> pystr \<Rightarrow> world \<Rightarrow> (exn + path option) \<times> world" where
  "generate_screenshot e news_items target0 w =
     (let target = (if target0 = [] then ascii ''crypto-chart'' else target0)
      in if target = ascii ''crypto-chart'' then
           (let symbol = scan_symbol (str_upper e) crypto_symbols (ascii ''BTC'') news_items;
                chart = download_chart_image e symbol w
            in if truthy (fst chart) then (Inr (fst chart), snd chart)
               else if \<not> launch_available (the_browser e) then (Inr None, snd chart)
               else capture_screenshot (the_browser e)
                      (ascii ''https://coinmarketcap.com/currencies/'' @ str_lower e symbol @ ascii ''/'')
                      (ascii ''.cmc-chart-container, .price-chart-container, canvas'')
                      (snd chart))
         else if target = ascii ''crypto-ticker'' then
           (let symbol = scan_symbol (str_lower e) coingecko_ids (ascii ''bitcoin'') news_items
            in if \<not> launch_available (the_browser e) then (Inr None, w)
               else capture_screenshot (the_browser e)
                      (ascii ''https://www.coingecko.com/en/coins/'' @ symbol)
                      (ascii ''.gecko-coin-detail-header'')
                      w)
         else
           (if \<not> launch_available (the_browser e) then (Inr None, w)
            else (case news_items of
                    [] \<Rightarrow> (Inl IndexError, w)
                  | first # _ \<Rightarrow>
                      capture_screenshot (the_browser e)
                        (if url first = [] then ascii ''https://news.ycombinator.com'' else url first)
                        (ascii ''article, main, .article-content, .post-content'')
                        w)))"

section \<open>The publisher\<close>

text \<open>The result records are Python dictionaries: keys in insertion order.\<close>

datatype pyval = PBool bool | PStr pystr | PNone | PList "pystr list"

type_synonym pydict = "(string \<times> pyval) list"

definition opt_str :: "pystr option \<Rightarrow> pyval" where
  "opt_str x = (case x of None \<Rightarrow> PNone | Some s \<Rightarrow> PStr s)"

fun dict_set :: "string \<Rightarrow> pyval \<Rightarrow> pydict \<Rightarrow> pydict" where
  "dict_set k v [] = [(k, v)]"
| "dict_set k v ((k', v') # d) = (if k = k' then (k, v) # d else (k', v') # dict_set k v d)"

definition dict_update :: "pydict \<Rightarrow> pydict \<Rightarrow> pydict" where
  "dict_update d kvs = foldl (\<lambda>acc kv. dict_set (fst kv) (snd kv) acc) d kvs"

text \<open>
  \<^verbatim>\<open>upload_to_uploadme\<close>: \<^verbatim>\<open>None\<close> without an API key or without the file; otherwise
  the upload, whose exceptions are all caught.
\<close>

definition upload_to_uploadme :: "env \<Rightarrow> path \<Rightarrow> world \<Rightarrow> pystr option \<times> world" where
  "upload_to_uploadme e media_path w =
     (if \<not> truthy (uploadme_api_key e) \<or> \<not> path_exists w media_path then (None, w)
      else (case uploadme_response e of
              Inl _ \<Rightarrow> (None, log (Api_upload_to_uploadme media_path) w)
            | Inr u \<Rightarrow> (u, log (Api_upload_to_uploadme media_path) w)))"

text \<open>The slice \<^verbatim>\<open>xs[:k]\<close> of Python: a negative \<open>k\<close> counts from the end.\<close>

definition slice_to :: "'a list \<Rightarrow> int \<Rightarrow> 'a list" where
  "slice_to xs k = (if k < 0 then take (nat (int (length xs) + k)) xs else take (nat k) xs)"

text \<open>
  \<^verbatim>\<open>
  available = 280 - len(image_url) - 1
  if len(final_text) > available:
      final_text = final_text[: available - 3] + "..."
  final_text = f"{final_text}\n{image_url}"
  \<close>
\<close>

definition append_image_url :: "pystr \<Rightarrow> pystr \<Rightarrow> pystr" where
  "append_image_url final_text image_url =
     (let available = 280 - int (length image_url) - 1;
          shortened = (if int (length final_text) > available
                       then slice_to final_text (available - 3) @ ascii ''...''
                       else final_text)
      in shortened @ nl @ image_url)"

text \<open>The last statement of \<^verbatim>\<open>post_tweet\<close>: the post without media and its record.\<close>

definition create_text_tweet ::
  "env \<Rightarrow> pystr \<Rightarrow> pystr option \<Rightarrow> world \<Rightarrow> (exn + pydict) \<times> world" where
  "create_text_tweet e final_text image_url w =
     (case create_tweet_result e final_text False of
        Inl x \<Rightarrow> (Inl x, log (Api_create_tweet final_text False) w)
      | Inr tweet_id \<Rightarrow>
          (Inr [(''success'', PBool True), (''tweetId'', opt_str tweet_id),
                (''tweetText'', PStr final_text), (''imageUrl'', opt_str image_url)],
           log (Api_create_tweet final_text False) w))"

text \<open>
  The two handlers of the media attempt: \<^verbatim>\<open>except Forbidden\<close> tries the image host,
  deletes the file and appends the hosted link when there is one;
  \<^verbatim>\<open>except Exception\<close> deletes the file. Both go on to the post without media.
\<close>

definition upload_failed ::
  "env \<Rightarrow> exn \<Rightarrow> pystr \<Rightarrow> path \<Rightarrow> world \<Rightarrow> (exn + pydict) \<times> world" where
  "upload_failed e x text media_path w =
     (if x = Forbidden then
        (let hosted = upload_to_uploadme e media_path w;
             w1 = unlink media_path (snd hosted)
         in case fst hosted of
              None \<Rightarrow> create_text_tweet e text None w1
            | Some image_url \<Rightarrow>
                if image_url \<noteq> []
                then create_text_tweet e (append_image_url text image_url) (Some image_url) w1
                else create_text_tweet e text (Some image_url) w1)
      else create_text_tweet e text None (unlink media_path w))"

text \<open>
  \<^verbatim>\<open>
  if media_path and Path(media_path).exists():
      try:
          media = self.twitter_api.media_upload(media_path)
          response = self.twitter_client.create_tweet(text=text, media_ids=[media.media_id])
          Path(media_path).unlink(missing_ok=True)
          return {"success": True, "tweetId": ..., "tweetText": text, "imageUrl": image_url}
      except Forbidden as exc: ...
      except Exception as exc: ...
  response = self.twitter_client.create_tweet(text=final_text)
  return {"success": True, "tweetId": ..., "tweetText": final_text, "imageUrl": image_url}
  \<close>
  An exception of the last \<^verbatim>\<open>create_tweet\<close> is not caught.
\<close>

definition post_tweet ::
  "env \<Rightarrow> pystr \<Rightarrow> path option \<Rightarrow> world \<Rightarrow> (exn + pydict) \<times> world" where
  "post_tweet e text media_path w =
     (case media_path of
        None \<Rightarrow> create_text_tweet e text None w
      | Some p \<Rightarrow>
          if p \<noteq> [] \<and> path_exists w p then
            (case media_upload_result e of
               Inl x \<Rightarrow> upload_failed e x text p (log (Api_media_upload p) w)
             | Inr media_id \<Rightarrow>
                 (case create_tweet_result e text True of
                    Inl x \<Rightarrow>
                      upload_failed e x text p
                        (log (Api_create_tweet text True) (log (Api_media_upload p) w))
                  | Inr tweet_id \<Rightarrow>
                      (Inr [(''success'', PBool True), (''tweetId'', opt_str tweet_id),
                            (''tweetText'', PStr text), (''imageUrl'', PNone)],
                       unlink p (log (Api_create_tweet text True) (log (Api_media_upload p) w)))))
          else create_text_tweet e text None w)"

section \<open>The pipeline\<close>

text \<open>The options of \<^verbatim>\<open>run\<close>, after the caller's have been merged over the defaults.\<close>

record options =
  use_image :: bool
  image_generation_type :: pystr
  screenshot_target :: pystr
  crypto_news_enabled :: bool
  world_news_enabled :: bool
  dry_run :: bool
  use_openai_image_only :: bool

definition gather_news :: "env \<Rightarrow> options \<Rightarrow> world \<Rightarrow> news_item list \<times> world" where
  "gather_news e opts w =
     (let w1 = (if crypto_news_enabled opts then log Call_fetch_crypto_news w else w);
          items1 = (if crypto_news_enabled opts then crypto_news e else []);
          w2 = (if world_news_enabled opts then log Call_fetch_world_news w1 else w1);
          items2 = (if world_news_enabled opts then world_news e else [])
      in (items1 @ items2, w2))"

text \<open>
  The media block of \<^verbatim>\<open>run\<close> (\<^verbatim>\<open>if opts["use_image"]: ...\<close>), the generation type
  being \<^verbatim>\<open>(opts.get("image_generation_type") or "ai").lower()\<close>.
\<close>

definition logged_ai_image :: "env \<Rightarrow> world \<Rightarrow> (exn + path option) \<times> world" where
  "logged_ai_image e w = generate_ai_image e (log Call_generate_ai_image w)"

definition prepare_media ::
  "env \<Rightarrow> options \<Rightarrow> news_item list \<Rightarrow> world \<Rightarrow> (exn + path option) \<times> world" where
  "prepare_media e opts news_items w =
     (if \<not> use_image opts then (Inr None, w)
      else if use_openai_image_only opts then logged_ai_image e w
      else
        (let gen_type = str_lower e (if image_generation_type opts = [] then ascii ''ai''
                                     else image_generation_type opts)
         in if gen_type = ascii ''screenshot'' then
              generate_screenshot e news_items (screenshot_target opts)
                (log Call_generate_screenshot w)
            else if gen_type = ascii ''both'' then
              (let r = logged_ai_image e w
               in case fst r of
                    Inl x \<Rightarrow> (Inl x, snd r)
                  | Inr media_path \<Rightarrow>
                      if truthy media_path then (Inr media_path, snd r)
                      else generate_screenshot e news_items (screenshot_target opts)
                             (log Call_generate_screenshot (snd r)))
            else logged_ai_image e w))"

definition discard_media :: "path option \<Rightarrow> world \<Rightarrow> world" where
  "discard_media media_path w =
     (case media_path of None \<Rightarrow> w | Some p \<Rightarrow> if p = [] then w else unlink p w)"

definition no_news_record :: pydict where
  "no_news_record = [(''success'', PBool False), (''error'', PStr (ascii ''No news items found''))]"

definition dry_run_record :: "pystr \<Rightarrow> pystr \<Rightarrow> pydict" where
  "dry_run_record tweet_text format_used =
     [(''success'', PBool True), (''dryRun'', PBool True), (''tweetText'', PStr tweet_text),
      (''format'', PStr format_used)]"

text \<open>
  \<^verbatim>\<open>run\<close>: gather, stop when there is no item, summarize, format, prepare the media,
  then either the dry-run preview (deleting the media) or the post, whose record gets the
  headline, the key points and the format added.
\<close>

definition run :: "env \<Rightarrow> options \<Rightarrow> world \<Rightarrow> (exn + pydict) \<times> world" where
  "run e opts w =
     (let gathered = gather_news e opts w;
          news_items = fst gathered
      in if news_items = [] then (Inr no_news_record, snd gathered)
         else
           (case summarize_news (completion e) news_items of
              Inl x \<Rightarrow> (Inl x, log Call_summarize_news (snd gathered))
            | Inr summary \<Rightarrow>
                (let tweet = build_tweet_text (fst summary) (snd summary);
                     media = prepare_media e opts news_items
                               (log Call_build_tweet_text (log Call_summarize_news (snd gathered)))
                 in case fst media of
                      Inl x \<Rightarrow> (Inl x, snd media)
                    | Inr media_path \<Rightarrow>
                        if dry_run opts
                        then (Inr (dry_run_record (fst tweet) (snd tweet)),
                              discard_media media_path (snd media))
                        else
                          (let posted = post_tweet e (fst tweet) media_path
                                          (log Call_post_tweet (snd media))
                           in case fst posted of
                                Inl x \<Rightarrow> (Inl x, snd posted)
                              | Inr post_result \<Rightarrow>
                                  (Inr (dict_update post_result
                                          [(''headline'', PStr (fst summary)),
                                           (''keyPoints'', PList (snd summary)),
                                           (''format'', PStr (snd tweet))]),
                                   snd posted)))))"

section \<open>The formatter as the specification words it\<close>

text \<open>
  The specification describes the formatter as three tiers tried in order, the first whose
  length test passes being the one returned: \<^emph>\<open>full\<close> (the headline, a blank line, the
  first three key points each behind the bullet marker, a trailing blank line) when its
  length is at most 260; \<^emph>\<open>abbreviated\<close> (the same with the first key point only) when
  its length is at most 280; \<^emph>\<open>minimal\<close> (the headline alone) without a test. The
  headline is trimmed first, and the text returned is trimmed. This second definition
  follows those words, to be compared with \<open>build_tweet_text\<close>.
\<close>

definition blank_line :: pystr where
  "blank_line = nl @ nl"

definition bulleted :: "pystr list \<Rightarrow> pystr" where
  "bulleted points = join nl (map (\<lambda>p. bullet_marker @ p) points)"

definition tier_forms :: "pystr \<Rightarrow> pystr list \<Rightarrow> (pystr \<times> pystr \<times> nat option) list" where
  "tier_forms headline key_points =
     [(ascii ''full'',
         news_marker @ headline @ blank_line @ bulleted (take 3 key_points) @ blank_line,
         Some 260),
      (ascii ''abbreviated'',
         news_marker @ headline @ blank_line @ bulleted (take 1 key_points) @ blank_line,
         Some 280),
      (ascii ''minimal'', news_marker @ headline, None)]"

fun first_passing :: "(pystr \<times> pystr \<times> nat option) list \<Rightarrow> (pystr \<times> pystr) option" where
  "first_passing [] = None"
| "first_passing ((name, form, bound) # rest) =
     (if (case bound of None \<Rightarrow> True | Some b \<Rightarrow> length form \<le> b)
      then Some (strip form, name)
      else first_passing rest)"

definition format_by_tiers :: "pystr \<Rightarrow> pystr list \<Rightarrow> (pystr \<times> pystr) option" where
  "format_by_tiers headline key_points = first_passing (tier_forms (strip headline) key_points)"

section \<open>The summarizer's fallback as the specification words it\<close>

text \<open>
  The specification gives one fallback for a failed generation call and for an answer
  with nothing to parse: the headline is the first item's title, the key points are the
  titles of \<^verbatim>\<open>items[1:4]\<close>, or \<^verbatim>\<open>["Stay informed"]\<close> when no item is left after the
  first.
\<close>

definition claimed_fallback :: "news_item list \<Rightarrow> pystr \<times> pystr list" where
  "claimed_fallback news_items =
     (case news_items of
        [] \<Rightarrow> ([], [])
      | first # rest \<Rightarrow>
          (title first, if rest = [] then [ascii ''Stay informed''] else map title (take 3 rest)))"

section \<open>Concrete inputs\<close>

text \<open>
  A news item as the HackerNews fallback of \<^verbatim>\<open>fetch_world_news\<close> builds it (the
  description repeats the title, and a story without a title gets the empty one), an
  environment in which every collaborator succeeds, the options \<^verbatim>\<open>run\<close> starts from
  when its configuration names none (the generation type is then \<^verbatim>\<open>"screenshot"\<close>), and
  the same options asking for the overlay image. The theorems below are instantiated on
  these and on variations of them.
\<close>

definition item_titled :: "pystr \<Rightarrow> news_item" where
  "item_titled t =
     \<lparr>title = t, description = t, url = ascii ''https://news.ycombinator.com/item?id=1'',
      published_at = ascii ''2024-01-01T00:00:00'', source = ascii ''HackerNews''\<rparr>"

definition ascii_upper :: "pystr \<Rightarrow> pystr" where
  "ascii_upper s = map (\<lambda>c. if 97 \<le> c \<and> c \<le> 122 then c - 32 else c) s"

definition ascii_lower :: "pystr \<Rightarrow> pystr" where
  "ascii_lower s = map (\<lambda>c. if 65 \<le> c \<and> c \<le> 90 then c + 32 else c) s"

definition overlay_file :: path where
  "overlay_file = ascii ''/tmp/twitter_bot/news_overlay_inter_1700000000.png''"

definition good_browser :: browser where
  "good_browser =
     \<lparr>launch_available = True,
      executable_path = Some (ascii ''/usr/bin/chromium''),
      launch_raises = None,
      page_setup_raises = None,
      goto_raises = None,
      selector_visible = (\<lambda>sel. True),
      query_selector = (\<lambda>sel. Inr True),
      bounding_box = (\<lambda>sel. Inr (Some (1200, 400))),
      element_screenshot = Inr (Some 52000),
      page_screenshot = Inr (Some 91000),
      close_raises = None,
      screenshot_path = ascii ''/tmp/twitter_bot/screenshot_1700000000.png''\<rparr>"

definition good_env :: env where
  "good_env =
     \<lparr>str_upper = ascii_upper,
      str_lower = ascii_lower,
      crypto_news = [item_titled (ascii ''Rates held''), item_titled (ascii ''Chip exports up'')],
      world_news = [],
      completion = Inr (Some (ascii ''HEADLINE: Calm markets'' @ [10, 226, 8364, 162, 32]
                              @ ascii ''Rates held'')),
      overlay_image = Inr (Some (overlay_file, 48000)),
      chart_response = Inr (200, 5200),
      chart_path = (\<lambda>symbol. ascii ''/tmp/twitter_bot/chart_'' @ symbol @ ascii ''_1700000000.png''),
      the_browser = good_browser,
      uploadme_api_key = Some (ascii ''k3y''),
      uploadme_response = Inr (Some (ascii ''https://uploadme.me/i/abc.png'')),
      media_upload_result = Inr 7,
      create_tweet_result = (\<lambda>text with_media. Inr (Some (ascii ''1789'')))\<rparr>"

definition default_options :: options where
  "default_options =
     \<lparr>use_image = True, image_generation_type = ascii ''screenshot'',
      screenshot_target = ascii ''crypto-chart'', crypto_news_enabled = True,
      world_news_enabled = True, dry_run = False, use_openai_image_only = False\<rparr>"


definition empty_world :: world where
  "empty_world = \<lparr>files = Map.empty, calls = []\<rparr>"

definition world_with_overlay :: world where
  "world_with_overlay = \<lparr>files = [overlay_file \<mapsto> 48000], calls = []\<rparr>"

text \<open>
  The good environment with a browser whose launch raises, and the options that ask for a
  screenshot of the ticker page. Then the environments of a dry run that goes wrong: a
  generation call that raises another exception than \<^verbatim>\<open>OpenAIError\<close>, a browser whose
  closing raises, a browser whose element capture writes 400 bytes only, and an overlay
  renderer that cannot make its directory.
\<close>

definition launch_failing_env :: env where
  "launch_failing_env =
     good_env\<lparr>the_browser := good_browser\<lparr>launch_raises := Some OtherException\<rparr>\<rparr>"

definition ticker_options :: options where
  "ticker_options =
     default_options\<lparr>image_generation_type := ascii ''screenshot'',
                     screenshot_target := ascii ''crypto-ticker''\<rparr>"





section \<open>Facts about trimming\<close>

lemma length_strip_by_le: "length (strip_by P s) \<le> length s"
proof -
  have "length (dropWhile P (rev (dropWhile P s))) \<le> length (rev (dropWhile P s))"
    by (rule length_dropWhile_le)
  also have "\<dots> \<le> length s"
    by (simp add: length_dropWhile_le)
  finally show ?thesis
    by (simp add: strip_by_def rstrip_by_def lstrip_by_def)
qed

lemma length_strip_le: "length (strip s) \<le> length s"
  by (simp add: strip_def length_strip_by_le)

lemma rstrip_by_append_dropped:
  assumes "\<And>c. c \<in> set ys \<Longrightarrow> P c"
  shows "rstrip_by P (xs @ ys) = rstrip_by P xs"
proof -
  have "dropWhile P (rev ys @ rev xs) = dropWhile P (rev xs)"
    using assms by (intro dropWhile_append2) simp
  then show ?thesis
    by (simp add: rstrip_by_def)
qed

lemma strip_by_unchanged:
  assumes "s \<noteq> []" "\<not> P (hd s)" "\<not> P (last s)"
  shows "strip_by P s = s"
proof -
  have l: "dropWhile P s = s"
    using assms by (cases s) simp_all
  have "rev s \<noteq> []" "\<not> P (hd (rev s))"
    using assms by (simp_all add: hd_rev)
  then have r: "dropWhile P (rev s) = rev s"
    by (cases "rev s") simp_all
  show ?thesis
    by (simp add: strip_by_def lstrip_by_def rstrip_by_def l r)
qed

lemma not_space_240: "\<not> is_space 240"
  by (simp add: is_space_def)

lemma not_space_88: "\<not> is_space 88"
  by (simp add: is_space_def)

lemma is_space_10: "is_space 10"
  by (simp add: is_space_def)

text \<open>
  Trimming the minimal form leaves what trimming the marker and the headline leaves: the
  marker starts with a character that is no white space, and the two line feeds at the end
  go.
\<close>

lemma strip_minimal: "strip (minimal h) = strip (news_marker @ h)"
proof -
  have l1: "lstrip_by is_space (minimal h) = minimal h"
    by (simp add: lstrip_by_def minimal_def news_marker_def not_space_240)
  have l2: "lstrip_by is_space (news_marker @ h) = news_marker @ h"
    by (simp add: lstrip_by_def news_marker_def not_space_240)
  have "rstrip_by is_space ((news_marker @ h) @ (nl @ nl)) = rstrip_by is_space (news_marker @ h)"
    by (rule rstrip_by_append_dropped) (auto simp: nl_def is_space_10)
  then have "rstrip_by is_space (minimal h) = rstrip_by is_space (news_marker @ h)"
    by (simp add: minimal_def)
  with l1 l2 show ?thesis
    by (simp add: strip_def strip_by_def)
qed

lemma length_strip_minimal: "length (strip (minimal h)) \<le> length news_marker + length h"
proof -
  have "length (strip (news_marker @ h)) \<le> length (news_marker @ h)"
    by (rule length_strip_le)
  then show ?thesis
    by (simp add: strip_minimal)
qed

lemma tier_names_distinct:
  "ascii ''full'' \<noteq> ascii ''abbreviated''" "ascii ''full'' \<noteq> ascii ''minimal''"
  "ascii ''abbreviated'' \<noteq> ascii ''minimal''"
  by (simp_all add: ascii_def)

text \<open>Unfolding the string operations on literals.\<close>

lemma str_eval:
  "ascii s = map of_char s" "nl = [10]" "news_marker = [240, 376, 8220, 176, 32]"
  "bullet_marker = [226, 8211, 184, 32]"
  "strip s' = rev (dropWhile is_space (rev (dropWhile is_space s')))"
  by (simp_all add: ascii_def nl_def news_marker_def bullet_marker_def strip_def strip_by_def
      lstrip_by_def rstrip_by_def)

lemmas parse_eval =
  parse_summary_def parse_line_def splitlines_def is_linebreak_def headline_marker_def
  point_marker_def startswith_def strip_chars_def strip_def strip_by_def lstrip_by_def
  rstrip_by_def is_space_def ascii_def

section \<open>The length of the formatted tweet\<close>

text \<open>
  Claim C1 says that the text of \<open>build_tweet_text\<close> never has more than 280 characters,
  the minimal tier included. The minimal tier has no length test and cuts nothing: a
  headline of 300 letters X and no key point comes back as the marker and the 300
  letters, 305 characters.
\<close>

theorem build_tweet_text_long_headline:
  "\<not> length (fst (build_tweet_text (replicate 300 88) [])) \<le> 280"
proof -
  let ?h = "replicate 300 (88::nat)"
  have h: "strip ?h = ?h"
    unfolding strip_def by (rule strip_by_unchanged) (simp_all add: not_space_88)
  have "strip_by is_space (news_marker @ ?h) = news_marker @ ?h"
    by (rule strip_by_unchanged) (simp_all add: not_space_88 not_space_240 news_marker_def)
  then have m: "strip (minimal ?h) = news_marker @ ?h"
    using strip_minimal [of ?h] by (simp add: strip_def)
  have "build_tweet_text ?h [] = (news_marker @ ?h, ascii ''minimal'')"
    by (simp add: build_tweet_text_def h m full_format_def abbreviated_def news_marker_def nl_def)
  then show ?thesis
    by (simp add: news_marker_def)
qed

text \<open>
  Claim C1, as amended: the text has at most 260 characters in the full tier, at most 280
  in the abbreviated tier, and in the minimal tier at most the marker's five and the
  trimmed headline's; so it has at most 280 characters whenever the trimmed headline has
  at most 275.
\<close>

theorem build_tweet_text_length:
  "length (fst (build_tweet_text headline key_points)) \<le>
     (if snd (build_tweet_text headline key_points) = ascii ''full'' then 260
      else if snd (build_tweet_text headline key_points) = ascii ''abbreviated'' then 280
      else length news_marker + length (strip headline))
   \<and> length news_marker = 5
   \<and> (length (strip headline) \<le> 275 \<longrightarrow>
        length (fst (build_tweet_text headline key_points)) \<le> 280)"
proof -
  let ?h = "strip headline" and ?k = "take 3 key_points"
  have full: "length (strip (full_format ?h ?k)) \<le> length (full_format ?h ?k)"
    by (rule length_strip_le)
  have abbr: "length (strip (abbreviated ?h ?k)) \<le> length (abbreviated ?h ?k)"
    by (rule length_strip_le)
  have mini: "length (strip (minimal ?h)) \<le> length news_marker + length ?h"
    by (rule length_strip_minimal)
  have five: "length news_marker = 5"
    by (simp add: news_marker_def)
  show ?thesis
    using full abbr mini five tier_names_distinct
    by (auto simp: build_tweet_text_def Let_def)
qed

theorem build_tweet_text_length_witness:
  "length (strip (ascii '' Rates held '')) \<le> 275
   \<and> build_tweet_text (ascii '' Rates held '') [ascii ''a''] =
       (news_marker @ ascii ''Rates held'' @ nl @ nl @ bullet_marker @ ascii ''a'', ascii ''full'')
   \<and> length (fst (build_tweet_text (ascii '' Rates held '') [ascii ''a''])) \<le> 280"
  using build_tweet_text_length [where headline = "ascii '' Rates held ''"
      and key_points = "[ascii ''a'']"]
  by (simp add: build_tweet_text_def full_format_def str_eval is_space_def)

section \<open>The order of the tiers\<close>

lemma join_take1:
  "join sep (map f (take (Suc 0) ps)) = (case ps of [] \<Rightarrow> [] | p # _ \<Rightarrow> f p)"
  by (cases ps) simp_all

lemma abbreviated_take3:
  "(case take 3 ps of [] \<Rightarrow> [] | p # _ \<Rightarrow> f p) = (case ps of [] \<Rightarrow> [] | p # _ \<Rightarrow> f p)"
  by (cases ps) simp_all

text \<open>
  Claim C8: for every headline and list of key points, \<open>build_tweet_text\<close> returns what
  trying the tiers in the order full, abbreviated, minimal returns: the full form
  (headline and up to three bulleted points) when it has at most 260 characters, else the
  abbreviated form (headline and first point) when it has at most 280, else the minimal
  form (the headline alone) without a test; the text is trimmed.
\<close>

theorem build_tweet_text_tiers:
  "format_by_tiers headline key_points = Some (build_tweet_text headline key_points)"
  by (simp add: format_by_tiers_def tier_forms_def build_tweet_text_def Let_def
      full_format_def abbreviated_def blank_line_def bulleted_def join_take1 abbreviated_take3
      strip_minimal)

theorem build_tweet_text_tiers_witness:
  "format_by_tiers (ascii '' Rates held '') [ascii ''a''] =
     Some (news_marker @ ascii ''Rates held'' @ nl @ nl @ bullet_marker @ ascii ''a'', ascii ''full'')"
  using build_tweet_text_tiers [where headline = "ascii '' Rates held ''"
      and key_points = "[ascii ''a'']"]
  by (simp add: build_tweet_text_def full_format_def str_eval is_space_def)

section \<open>The summarizer's results\<close>

text \<open>
  Claim C4 says that a failed generation call and an answer with nothing to parse both
  give the first title as headline and the titles of \<^verbatim>\<open>items[1:4]\<close> as key points. On
  an answer with nothing to parse the code takes the titles of \<^verbatim>\<open>items[:3]\<close>: with two
  items titled A and B the key points are A and B, not B alone. And only an
  \<^verbatim>\<open>OpenAIError\<close> is caught: another exception of the call leaves \<open>summarize_news\<close>.
\<close>

theorem summarize_news_unparsed_differs:
  "parse_summary (ascii ''no comment'') = ([], [])
   \<and> summarize_news (Inr (Some (ascii ''no comment'')))
        [item_titled (ascii ''A''), item_titled (ascii ''B'')]
      = Inr (ascii ''A'', [ascii ''A'', ascii ''B''])
   \<and> summarize_news (Inr (Some (ascii ''no comment'')))
        [item_titled (ascii ''A''), item_titled (ascii ''B'')]
      \<noteq> Inr (claimed_fallback [item_titled (ascii ''A''), item_titled (ascii ''B'')])
   \<and> summarize_news (Inl OtherException) [item_titled (ascii ''A''), item_titled (ascii ''B'')]
      = Inl OtherException"
  by (simp add: summarize_news_def claimed_fallback_def item_titled_def parse_eval)

text \<open>
  Claim C4, as amended: for a list that is not empty, when the generation call raises
  \<^verbatim>\<open>OpenAIError\<close> the result is the first title with the titles of \<^verbatim>\<open>items[1:4]\<close>, or
  with \<^verbatim>\<open>["Stay informed"]\<close> when no item is left after the first; when the call returns
  a text from which neither a headline nor a bullet is parsed, the result is the first
  title with the titles of \<^verbatim>\<open>items[:3]\<close>.
\<close>

theorem summarize_news_fallbacks:
  "(answer = Inl OpenAIError \<longrightarrow>
      summarize_news answer (first # rest) = Inr (claimed_fallback (first # rest)))
   \<and> (answer = Inr c \<and> parse_summary (case c of None \<Rightarrow> [] | Some s \<Rightarrow> s) = ([], []) \<longrightarrow>
        summarize_news answer (first # rest) =
          Inr (title first, map title (take 3 (first # rest))))"
proof -
  have "take 3 rest = [] \<longleftrightarrow> rest = []"
    by (cases rest) simp_all
  then show ?thesis
    by (auto simp: summarize_news_def claimed_fallback_def Let_def)
qed

theorem summarize_news_fallbacks_witness:
  "summarize_news (Inl OpenAIError) [item_titled (ascii ''A''), item_titled (ascii ''B'')]
     = Inr (ascii ''A'', [ascii ''B''])
   \<and> parse_summary (case None of None \<Rightarrow> [] | Some s \<Rightarrow> s) = ([], [])
   \<and> summarize_news (Inr None) [item_titled (ascii ''A''), item_titled (ascii ''B'')]
     = Inr (ascii ''A'', [ascii ''A'', ascii ''B''])"
  using summarize_news_fallbacks [where answer = "Inl OpenAIError"
      and first = "item_titled (ascii ''A'')" and rest = "[item_titled (ascii ''B'')]" and c = None]
    summarize_news_fallbacks [where answer = "Inr None"
      and first = "item_titled (ascii ''A'')" and rest = "[item_titled (ascii ''B'')]" and c = None]
  by (simp add: claimed_fallback_def item_titled_def parse_eval)




text \<open>
  Claim C10: on every path on which \<open>summarize_news\<close> returns (no item, the generation
  call's \<^verbatim>\<open>OpenAIError\<close>, a parsed answer, an answer with nothing to parse) the list of
  key points is not empty and has at most three elements. The function returns on every
  input but one kind: a list that is not empty with a generation call that raises another
  exception than \<^verbatim>\<open>OpenAIError\<close>, which it hands on.
\<close>

theorem summarize_news_key_points:
  "case summarize_news answer news_items of
     Inr summary \<Rightarrow> snd summary \<noteq> [] \<and> length (snd summary) \<le> 3
   | Inl x \<Rightarrow> news_items \<noteq> [] \<and> answer = Inl x \<and> x \<noteq> OpenAIError"
proof (cases news_items)
  case Nil
  then show ?thesis
    by (simp add: summarize_news_def)
next
  case (Cons first rest)
  show ?thesis
  proof (cases answer)
    case (Inl x)
    with Cons show ?thesis
      by (simp add: summarize_news_def Let_def)
  next
    case (Inr c)
    with Cons show ?thesis
      by (simp add: summarize_news_def Let_def)
  qed
qed

theorem summarize_news_key_points_witness:
  "summarize_news (completion good_env) (crypto_news good_env)
     = Inr (ascii ''Calm markets'', [ascii ''Rates held''])
   \<and> length [ascii ''Rates held''] \<le> 3"
  using summarize_news_key_points [where answer = "completion good_env"
      and news_items = "crypto_news good_env"]
  by (simp add: summarize_news_def good_env_def item_titled_def parse_eval)

section \<open>The publisher and the media file\<close>

text \<open>What each step does to the files and to the log.\<close>

lemma files_log: "files (log c w) = files w"
  by (simp add: log_def)

lemma calls_log: "calls (log c w) = calls w @ [c]"
  by (simp add: log_def)

lemma files_unlink: "files (unlink p w) q = (if q = p then None else files w q)"
  by (simp add: unlink_def)

lemma calls_unlink: "calls (unlink p w) = calls w"
  by (simp add: unlink_def)



lemma files_create_text_tweet: "files (snd (create_text_tweet e t u w)) = files w"
  by (simp add: create_text_tweet_def files_log split: sum.splits)

lemma calls_create_text_tweet:
  "calls (snd (create_text_tweet e t u w)) = calls w @ [Api_create_tweet t False]"
  by (simp add: create_text_tweet_def calls_log split: sum.splits)

lemma files_upload_to_uploadme: "files (snd (upload_to_uploadme e p w)) = files w"
  by (simp add: upload_to_uploadme_def files_log split: sum.splits)

lemma files_upload_failed: "files (snd (upload_failed e x t p w)) p = None"
  by (simp add: upload_failed_def Let_def files_create_text_tweet files_unlink
      split: option.splits)

lemma overlay_file_nonempty: "overlay_file \<noteq> []"
  by (simp add: overlay_file_def ascii_def)

text \<open>
  Claim C2: when \<open>post_tweet\<close> is called with a media path whose file exists, the file
  is gone once the call is over, whatever the platform and the image host do: on the post
  with media, on the forbidden upload (with or without a hosted link), on any other
  exception of the upload, and also when the last \<^verbatim>\<open>create_tweet\<close> raises. (The empty
  path names no file: \<^verbatim>\<open>if media_path and ...\<close> skips it.)
\<close>

theorem post_tweet_deletes_media:
  assumes "p \<noteq> []" and "path_exists w p"
  shows "files (snd (post_tweet e tweet_text (Some p) w)) p = None"
  using assms
  by (simp add: post_tweet_def files_upload_failed files_unlink split: sum.splits)

theorem post_tweet_deletes_media_witness:
  "overlay_file \<noteq> [] \<and> path_exists world_with_overlay overlay_file
   \<and> files (snd (post_tweet (good_env\<lparr>media_upload_result := Inl OtherException\<rparr>)
                     (ascii ''hello'') (Some overlay_file) world_with_overlay)) overlay_file = None"
  using post_tweet_deletes_media [where p = overlay_file and w = world_with_overlay
      and e = "good_env\<lparr>media_upload_result := Inl OtherException\<rparr>" and tweet_text = "ascii ''hello''"]
  by (simp add: overlay_file_nonempty path_exists_def world_with_overlay_def)

section \<open>The hosted link\<close>

lemma posted_texts_append: "posted_texts (cs @ ds) = posted_texts cs @ posted_texts ds"
  by (induction cs rule: posted_texts.induct) simp_all

text \<open>
  Claim C6 says that the text posted with a hosted link always has at most 280
  characters. The code reserves \<open>280 - length u - 1\<close> characters whatever the link's
  length and slices the text at three less than that: for a link of 280 characters the
  slice bound is negative, the text \<^verbatim>\<open>hello\<close> becomes \<^verbatim>\<open>h...\<close>, and the text posted
  has 285 characters.
\<close>

theorem post_tweet_long_link:
  "posted_texts (calls (snd (post_tweet
      (good_env\<lparr>media_upload_result := Inl Forbidden,
                 uploadme_response := Inr (Some (replicate 280 117))\<rparr>)
      (ascii ''hello'') (Some overlay_file) world_with_overlay)))
     = [ascii ''h...'' @ nl @ replicate 280 117]
   \<and> \<not> length (ascii ''h...'' @ nl @ replicate 280 117) \<le> 280"
  by (simp add: post_tweet_def upload_failed_def upload_to_uploadme_def create_text_tweet_def
      append_image_url_def slice_to_def truthy_def path_exists_def log_def unlink_def
      good_env_def world_with_overlay_def overlay_file_nonempty ascii_def nl_def Let_def)

text \<open>
  Claim C6, as amended: when the media upload raises the forbidden error and the image
  host returns a link that is not empty and has at most 276 characters, the text posted
  is a body, a line feed and the link; the body is the original text when that has at
  most \<open>280 - length u - 1\<close> characters, else its first \<open>280 - length u - 4\<close>
  characters and an ellipsis of three dots, which fills the \<open>280 - length u - 1\<close>
  characters reserved; the text posted has at most 280 characters.
\<close>

theorem post_tweet_forbidden_link:
  assumes "p \<noteq> []" and "path_exists w p"
    and "media_upload_result e = Inl Forbidden"
    and "truthy (uploadme_api_key e)" and "uploadme_response e = Inr (Some u)"
    and "u \<noteq> []" and "length u \<le> 276"
  shows "\<exists>body.
           posted_texts (calls (snd (post_tweet e tweet_text (Some p) w)))
             = posted_texts (calls w) @ [body @ nl @ u]
         \<and> body = (if length tweet_text \<le> 279 - length u then tweet_text
                    else take (276 - length u) tweet_text @ ascii ''...'')
         \<and> length body = min (length tweet_text) (279 - length u)
         \<and> length (body @ nl @ u) \<le> 280"
proof -
  let ?body = "if length tweet_text \<le> 279 - length u then tweet_text
               else take (276 - length u) tweet_text @ ascii ''...''"
  have link: "append_image_url tweet_text u = ?body @ nl @ u"
    using \<open>length u \<le> 276\<close>
    by (auto simp: append_image_url_def slice_to_def Let_def nat_diff_distrib')
  have hosted: "fst (upload_to_uploadme e p (log (Api_media_upload p) w)) = Some u"
    using assms by (simp add: upload_to_uploadme_def path_exists_def files_log)
  have "posted_texts (calls (snd (post_tweet e tweet_text (Some p) w)))
          = posted_texts (calls w) @ [append_image_url tweet_text u]"
    using assms hosted
    by (simp add: post_tweet_def upload_failed_def Let_def calls_create_text_tweet calls_unlink
        upload_to_uploadme_def path_exists_def files_log calls_log posted_texts_append)
  moreover have "length ?body = min (length tweet_text) (279 - length u)"
    using \<open>length u \<le> 276\<close> by (auto simp: ascii_def)
  moreover have "length (?body @ nl @ u) \<le> 280"
    using \<open>length u \<le> 276\<close> by (auto simp: ascii_def nl_def)
  ultimately show ?thesis
    using link by auto
qed

theorem post_tweet_forbidden_link_witness:
  "overlay_file \<noteq> [] \<and> path_exists world_with_overlay overlay_file
   \<and> media_upload_result (good_env\<lparr>media_upload_result := Inl Forbidden\<rparr>) = Inl Forbidden
   \<and> truthy (uploadme_api_key (good_env\<lparr>media_upload_result := Inl Forbidden\<rparr>))
   \<and> uploadme_response (good_env\<lparr>media_upload_result := Inl Forbidden\<rparr>)
       = Inr (Some (ascii ''https://uploadme.me/i/abc.png''))
   \<and> ascii ''https://uploadme.me/i/abc.png'' \<noteq> []
   \<and> length (ascii ''https://uploadme.me/i/abc.png'') \<le> 276
   \<and> posted_texts (calls (snd (post_tweet (good_env\<lparr>media_upload_result := Inl Forbidden\<rparr>)
        (ascii ''hello'') (Some overlay_file) world_with_overlay)))
       = [ascii ''hello'' @ nl @ ascii ''https://uploadme.me/i/abc.png'']
   \<and> length (ascii ''hello'' @ nl @ ascii ''https://uploadme.me/i/abc.png'') \<le> 280"
  using post_tweet_forbidden_link [where p = overlay_file and w = world_with_overlay
      and e = "good_env\<lparr>media_upload_result := Inl Forbidden\<rparr>" and tweet_text = "ascii ''hello''"
      and u = "ascii ''https://uploadme.me/i/abc.png''"]
  by (simp add: overlay_file_nonempty path_exists_def world_with_overlay_def good_env_def
      truthy_def ascii_def nl_def)

section \<open>The pipeline without news\<close>

lemma gather_news_world:
  "files (snd (gather_news e opts w)) = files w"
  "calls (snd (gather_news e opts w)) =
     calls w @ (if crypto_news_enabled opts then [Call_fetch_crypto_news] else [])
             @ (if world_news_enabled opts then [Call_fetch_world_news] else [])"
  by (simp_all add: gather_news_def Let_def files_log calls_log)

text \<open>
  Claim C5: when the enabled categories give no item, \<open>run\<close> returns exactly the record
  \<^verbatim>\<open>{"success": False, "error": "No news items found"}\<close>, and has made no call but
  the fetches of the enabled categories: no summarization, no formatting, no media
  acquisition, no publishing; no file is touched.
\<close>

theorem run_without_news:
  assumes "fst (gather_news e opts w) = []"
  shows "fst (run e opts w) =
           Inr [(''success'', PBool False), (''error'', PStr (ascii ''No news items found''))]
         \<and> files (snd (run e opts w)) = files w
         \<and> calls (snd (run e opts w)) =
             calls w @ (if crypto_news_enabled opts then [Call_fetch_crypto_news] else [])
                     @ (if world_news_enabled opts then [Call_fetch_world_news] else [])"
  using assms by (simp add: run_def Let_def no_news_record_def gather_news_world)

theorem run_without_news_witness:
  "fst (gather_news (good_env\<lparr>crypto_news := []\<rparr>) default_options empty_world) = []
   \<and> fst (run (good_env\<lparr>crypto_news := []\<rparr>) default_options empty_world) =
       Inr [(''success'', PBool False), (''error'', PStr (ascii ''No news items found''))]
   \<and> calls (snd (run (good_env\<lparr>crypto_news := []\<rparr>) default_options empty_world)) =
       [Call_fetch_crypto_news, Call_fetch_world_news]"
  using run_without_news [where e = "good_env\<lparr>crypto_news := []\<rparr>" and opts = default_options
      and w = empty_world]
  by (simp add: gather_news_def good_env_def default_options_def empty_world_def Let_def)

section \<open>The media acquirer\<close>







text \<open>
  What holds of the acquirer: a screenshot path returned names a file that exists, and
  \<open>generate_screenshot\<close> returns whenever neither the launch nor the closing of the
  browser raises and there is a news item.
\<close>

lemma element_capture_keeps:
  "path_exists w q \<Longrightarrow> path_exists (snd (element_capture b selector w)) q"
  by (auto simp: element_capture_def path_exists_def write_opt_def write_file_def
      split: sum.splits option.splits prod.splits)

lemma capture_body_exists:
  "fst (capture_body b selector w) = Some p \<Longrightarrow> path_exists (snd (capture_body b selector w)) p"
  by (auto simp: capture_body_def Let_def path_exists_def split: option.splits sum.splits if_splits)

lemma capture_screenshot_returns:
  assumes "launch_raises b = None" and "close_raises b = None"
  shows "\<exists>r. fst (capture_screenshot b u selector w) = Inr r
           \<and> (\<forall>p. r = Some p \<longrightarrow> path_exists (snd (capture_screenshot b u selector w)) p)"
  using assms capture_body_exists [of b selector w]
  by (auto simp: capture_screenshot_def Let_def)

lemma download_chart_image_exists:
  "fst (download_chart_image e symbol w) = Some p
     \<Longrightarrow> path_exists (snd (download_chart_image e symbol w)) p"
  by (auto simp: download_chart_image_def path_exists_def write_file_def
      split: sum.splits prod.splits if_splits)

lemma generate_screenshot_returns:
  assumes "launch_raises (the_browser e) = None" and "close_raises (the_browser e) = None"
    and "news_items \<noteq> []"
  shows "\<exists>r. fst (generate_screenshot e news_items target w) = Inr r
           \<and> (\<forall>p. r = Some p \<longrightarrow> path_exists (snd (generate_screenshot e news_items target w)) p)"
proof -
  note cap = capture_screenshot_returns [OF assms(1,2)]
  show ?thesis
    using assms(3) cap download_chart_image_exists
    by (cases news_items) (auto simp: generate_screenshot_def Let_def)
qed

text \<open>What the screenshot capture does when the launch raises, and when it does not.\<close>

lemma capture_screenshot_launch_raises:
  assumes "launch_available b" and "truthy (executable_path b)" and "launch_raises b = Some x"
  shows "capture_screenshot b u selector w = (Inl x, w)"
  using assms by (auto simp: capture_screenshot_def truthy_def split: option.splits)

lemma generate_screenshot_ticker:
  assumes "launch_available (the_browser e)"
  shows "generate_screenshot e news_items (ascii ''crypto-ticker'') w =
           capture_screenshot (the_browser e)
             (ascii ''https://www.coingecko.com/en/coins/''
                @ scan_symbol (str_lower e) coingecko_ids (ascii ''bitcoin'') news_items)
             (ascii ''.gecko-coin-detail-header'') w"
proof -
  have "ascii ''crypto-ticker'' \<noteq> []" "ascii ''crypto-ticker'' \<noteq> ascii ''crypto-chart''"
    by (simp_all add: ascii_def)
  with assms show ?thesis
    by (simp add: generate_screenshot_def Let_def)
qed


lemma ascii_is_empty: "ascii s = [] \<longleftrightarrow> s = []"
  by (simp add: ascii_def)


section \<open>Runs of the concrete environments\<close>

lemma good_summary:
  "summarize_news (completion good_env) (crypto_news good_env)
     = Inr (ascii ''Calm markets'', [ascii ''Rates held''])"
  by (simp add: summarize_news_def good_env_def item_titled_def parse_eval)


lemma good_news: "crypto_news good_env \<noteq> []"
  by (simp add: good_env_def)








section \<open>The media acquirer and exceptions\<close>

lemma launch_failing_browser:
  "launch_available (the_browser launch_failing_env)"
  "truthy (executable_path (the_browser launch_failing_env))"
  "launch_raises (the_browser launch_failing_env) = Some OtherException"
  by (simp_all add: launch_failing_env_def good_browser_def truthy_def ascii_def)

lemma launch_failing_news:
  "crypto_news launch_failing_env = crypto_news good_env"
  "world_news launch_failing_env = []"
  "completion launch_failing_env = completion good_env"
  "str_lower launch_failing_env = ascii_lower"
  by (simp_all add: launch_failing_env_def good_env_def)

lemma ticker_media:
  "prepare_media launch_failing_env ticker_options news_items w =
     (Inl OtherException, log Call_generate_screenshot w)"
proof -
  have "ascii_lower (ascii ''screenshot'') = ascii ''screenshot''" "ascii ''screenshot'' \<noteq> []"
    by (simp_all add: ascii_lower_def ascii_def)
  then show ?thesis
    by (simp add: prepare_media_def ticker_options_def default_options_def Let_def
        launch_failing_news generate_screenshot_ticker launch_failing_browser
        capture_screenshot_launch_raises [OF launch_failing_browser])
qed

text \<open>
  Claim C3 says that the media acquirer never lets an exception through, browser launch
  failure included. In \<^verbatim>\<open>_capture_screenshot\<close> the launch stands before the \<^verbatim>\<open>try\<close>:
  with \<^verbatim>\<open>pyppeteer\<close> installed, a Chromium executable found and a launch that raises,
  \<open>generate_screenshot\<close> raises for the ticker target, and so does \<open>run\<close>.
\<close>

theorem generate_screenshot_launch_raises:
  "fst (generate_screenshot launch_failing_env (crypto_news launch_failing_env)
          (ascii ''crypto-ticker'') empty_world) = Inl OtherException
   \<and> fst (run launch_failing_env ticker_options empty_world) = Inl OtherException"
proof -
  have "gather_news launch_failing_env ticker_options empty_world
          = (crypto_news good_env, log Call_fetch_world_news (log Call_fetch_crypto_news empty_world))"
    by (simp add: gather_news_def ticker_options_def default_options_def launch_failing_news)
  then have "fst (run launch_failing_env ticker_options empty_world) = Inl OtherException"
    by (simp add: run_def Let_def good_news launch_failing_news good_summary ticker_media)
  then show ?thesis
    by (simp add: generate_screenshot_ticker launch_failing_browser
        capture_screenshot_launch_raises [OF launch_failing_browser])
qed

text \<open>An instance: the good environment, the ticker target, the element capture.\<close>

lemma good_browser_quiet:
  "launch_raises (the_browser good_env) = None" "close_raises (the_browser good_env) = None"
  "launch_available (the_browser good_env)"
  by (simp_all add: good_env_def good_browser_def)

lemma generate_screenshot_returns_example:
  "launch_raises (the_browser good_env) = None \<and> close_raises (the_browser good_env) = None
   \<and> crypto_news good_env \<noteq> []
   \<and> fst (generate_screenshot good_env (crypto_news good_env) (ascii ''crypto-ticker'') empty_world)
       = Inr (Some (screenshot_path good_browser))
   \<and> path_exists
        (snd (generate_screenshot good_env (crypto_news good_env) (ascii ''crypto-ticker'')
                empty_world))
        (screenshot_path good_browser)"
proof -
  have sel: "resolve_selector good_browser (ascii ''.gecko-coin-detail-header'')
               = ascii ''.gecko-coin-detail-header''"
    by (simp add: resolve_selector_def good_browser_def str_eval is_space_def)
  have nonempty: "ascii ''.gecko-coin-detail-header'' \<noteq> []"
    by (simp add: ascii_def)
  have shot: "fst (capture_body good_browser (ascii ''.gecko-coin-detail-header'') empty_world)
                = Some (screenshot_path good_browser)"
    using nonempty
    by (simp add: capture_body_def element_capture_def sel Let_def write_opt_def write_file_def
        good_browser_def)
  have "fst (generate_screenshot good_env (crypto_news good_env) (ascii ''crypto-ticker'')
               empty_world) = Inr (Some (screenshot_path good_browser))"
    using shot
    by (simp add: generate_screenshot_ticker good_browser_quiet capture_screenshot_def Let_def
        good_env_def good_browser_def ascii_is_empty)
  then show ?thesis
    using generate_screenshot_returns [where e = good_env and news_items = "crypto_news good_env"
        and target = "ascii ''crypto-ticker''" and w = empty_world]
    by (simp add: good_browser_quiet good_news)
qed

section \<open>The dry run\<close>














end
